theory Spec2Isabelle
  imports Main "HOL-Library.Word"
begin

section \<open>Text\<close>

text \<open>
  An \<open>FString\<close> of the source is a \<open>string\<close>. The literals of the source that are
  not ASCII (the Japanese log and result messages) are written as their UTF-8 bytes.
\<close>

type_synonym FString = string

definition utf8 :: "nat list \<Rightarrow> FString" where
  "utf8 bs = map char_of bs"

text \<open>\<open>TEXT("MCP server URL set: ")\<close>, the prefix of the \<open>%s\<close> in \<open>SetServerURL\<close>.\<close>
definition TEXT_url_set :: FString where
  "TEXT_url_set = utf8 [77, 67, 80, 227, 130, 181, 227, 131, 188, 227, 131, 144, 227, 131, 188,
     85, 82, 76, 227, 130, 146, 232, 168, 173, 229, 174, 154, 227, 129, 151, 227, 129, 190,
     227, 129, 151, 227, 129, 159, 58, 32]"

text \<open>\<open>TEXT("connected to the MCP server")\<close> in \<open>CheckConnection\<close>.\<close>
definition TEXT_connected :: FString where
  "TEXT_connected = utf8 [77, 67, 80, 227, 130, 181, 227, 131, 188, 227, 131, 144, 227, 131, 188,
     227, 129, 171, 230, 142, 165, 231, 182, 154, 227, 129, 151, 227, 129, 190, 227, 129, 151,
     227, 129, 159]"

text \<open>\<open>TEXT("the state of the MCP server is abnormal: ")\<close>, the prefix of the \<open>%s\<close>.\<close>
definition TEXT_abnormal :: FString where
  "TEXT_abnormal = utf8 [77, 67, 80, 227, 130, 181, 227, 131, 188, 227, 131, 144, 227, 131, 188,
     227, 129, 174, 231, 138, 182, 230, 133, 139, 227, 129, 140, 231, 149, 176, 229, 184, 184,
     227, 129, 167, 227, 129, 153, 58, 32]"

text \<open>\<open>TEXT("could not connect to the MCP server")\<close> in \<open>CheckConnection\<close>.\<close>
definition TEXT_not_connected :: FString where
  "TEXT_not_connected = utf8 [77, 67, 80, 227, 130, 181, 227, 131, 188, 227, 131, 144, 227, 131,
     188, 227, 129, 171, 230, 142, 165, 231, 182, 154, 227, 129, 167, 227, 129, 141, 227, 129,
     190, 227, 129, 155, 227, 130, 147, 227, 129, 167, 227, 129, 151, 227, 129, 159]"

text \<open>\<open>TEXT("failed to parse JSON: ")\<close>, the prefix of the \<open>%s\<close>.\<close>
definition TEXT_parse_failed :: FString where
  "TEXT_parse_failed = utf8 [74, 83, 79, 78, 227, 129, 174, 227, 131, 145, 227, 131, 188, 227,
     130, 185, 227, 129, 171, 229, 164, 177, 230, 149, 151, 227, 129, 151, 227, 129, 190, 227,
     129, 151, 227, 129, 159, 58, 32]"

text \<open>\<open>TEXT("the HTTP request failed: ")\<close>, the prefix of the \<open>%d\<close>.\<close>
definition TEXT_http_failed :: FString where
  "TEXT_http_failed = utf8 [72, 84, 84, 80, 227, 131, 170, 227, 130, 175, 227, 130, 168, 227,
     130, 185, 227, 131, 136, 227, 129, 140, 229, 164, 177, 230, 149, 151, 227, 129, 151, 227,
     129, 190, 227, 129, 151, 227, 129, 159, 58, 32]"

text \<open>\<open>TEXT("the connection of the HTTP request failed")\<close>.\<close>
definition TEXT_connect_failed :: FString where
  "TEXT_connect_failed = utf8 [72, 84, 84, 80, 227, 131, 170, 227, 130, 175, 227, 130, 168, 227,
     130, 185, 227, 131, 136, 227, 129, 174, 230, 142, 165, 231, 182, 154, 227, 129, 171, 229,
     164, 177, 230, 149, 151, 227, 129, 151, 227, 129, 190, 227, 129, 151, 227, 129, 159]"

text \<open>\<open>TEXT("Blender model '%s' imported: %s")\<close>: the text before the first \<open>%s\<close> and the
  text between the two.\<close>
definition TEXT_imported_1 :: FString where
  "TEXT_imported_1 = utf8 [66, 108, 101, 110, 100, 101, 114, 227, 131, 162, 227, 131, 135, 227,
     131, 171, 32, 39]"

definition TEXT_imported_2 :: FString where
  "TEXT_imported_2 = utf8 [39, 32, 227, 130, 146, 227, 130, 164, 227, 131, 179, 227, 131, 157,
     227, 131, 188, 227, 131, 136, 227, 129, 151, 227, 129, 190, 227, 129, 151, 227, 129, 159,
     58, 32]"

text \<open>\<open>TEXT("failed to import the asset: ")\<close>, the prefix of the \<open>%s\<close>.\<close>
definition TEXT_import_failed :: FString where
  "TEXT_import_failed = utf8 [227, 130, 162, 227, 130, 187, 227, 131, 131, 227, 131, 136, 227,
     129, 174, 227, 130, 164, 227, 131, 179, 227, 131, 157, 227, 131, 188, 227, 131, 136, 227,
     129, 171, 229, 164, 177, 230, 149, 151, 227, 129, 151, 227, 129, 190, 227, 129, 151, 227,
     129, 159, 58, 32]"

text \<open>\<open>printf\<close>'s \<open>%d\<close> of an \<open>int32\<close>: the decimal digits, with a minus sign when negative.\<close>

fun dec_nat :: "nat \<Rightarrow> string" where
  "dec_nat n = (if n < 10 then [''0123456789'' ! n]
                else dec_nat (n div 10) @ [''0123456789'' ! (n mod 10)])"

declare dec_nat.simps [simp del]

definition Printf_d :: "32 word \<Rightarrow> FString" where
  "Printf_d x = (if sint x < 0 then CHR ''-'' # dec_nat (nat (- sint x)) else dec_nat (nat (sint x)))"

text \<open>
  \<open>operator==\<close> of \<open>FString\<close> ignores the case of letters: the engine compares the two
  strings character by character after lowering \<open>A\<close> to \<open>Z\<close>.
\<close>

definition ToLower :: "char \<Rightarrow> char" where
  "ToLower ch =
     (case map_of (zip ''ABCDEFGHIJKLMNOPQRSTUVWXYZ'' ''abcdefghijklmnopqrstuvwxyz'') ch of
        Some l \<Rightarrow> l
      | None \<Rightarrow> ch)"

definition FString_eq :: "FString \<Rightarrow> FString \<Rightarrow> bool" where
  "FString_eq a b = (map ToLower a = map ToLower b)"

section \<open>The engine's JSON values\<close>

text \<open>
  A JSON value as the engine's \<open>FJsonValue\<close> has it. The engine stores a number as a
  double; the model leaves the type of numbers open. An \<open>FJsonObject\<close> is the list of its
  fields, read by \<open>map_of\<close>; a \<open>TSharedPtr<FJsonObject>\<close>, which may be null, is an option.
\<close>

datatype 'n FJsonValue =
    JNull
  | JBoolean bool
  | JNumber 'n
  | JString FString
  | JArray "'n FJsonValue list"
  | JObject "(FString \<times> 'n FJsonValue) list"

type_synonym 'n FJsonObject = "(FString \<times> 'n FJsonValue) list"

text \<open>
  An \<open>int32\<close> is a \<open>32 word\<close>, read as two's complement by \<open>sint\<close>.

  What the code calls and this repository does not define (the engine and the platform):
  the JSON reader and writer, the conversions of the JSON accessors, the path operator
  \<open>/\<close> of \<open>FString\<close>, the project's configuration directory and the file system.
  \<open>Deserialize\<close> is \<open>FJsonSerializer::Deserialize\<close> into a \<open>TSharedPtr<FJsonObject>\<close>: it
  returns false and leaves the pointer null unless the text is a JSON object.
\<close>

record 'n engine =
  Deserialize :: "FString \<Rightarrow> 'n FJsonObject option"
  Serialize :: "'n FJsonObject \<Rightarrow> FString"
  AsString :: "'n FJsonValue \<Rightarrow> FString"
  AsInt32 :: "'n FJsonValue \<Rightarrow> 32 word"
  PathAppend :: "FString \<Rightarrow> FString \<Rightarrow> FString"
  IsHttpEnabled :: bool
  ProjectConfigDir :: FString
  FileExists :: "FString \<Rightarrow> bool"
  LoadFileToString :: "FString \<Rightarrow> FString option"

text \<open>\<open>FJsonObject::SetStringField\<close> and \<open>SetObjectField\<close>: the field is added, or replaced
  when the object has it already. A null object pointer is stored as a JSON null.\<close>

fun SetField :: "FString \<Rightarrow> 'n FJsonValue \<Rightarrow> 'n FJsonObject \<Rightarrow> 'n FJsonObject" where
  "SetField k v [] = [(k, v)]"
| "SetField k v ((k', v') # fs) = (if k' = k then (k, v) # fs else (k', v') # SetField k v fs)"

definition SetStringField :: "FString \<Rightarrow> FString \<Rightarrow> 'n FJsonObject \<Rightarrow> 'n FJsonObject" where
  "SetStringField k s obj = SetField k (JString s) obj"

definition SetObjectField :: "FString \<Rightarrow> 'n FJsonObject option \<Rightarrow> 'n FJsonObject \<Rightarrow> 'n FJsonObject" where
  "SetObjectField k p obj = SetField k (case p of None \<Rightarrow> JNull | Some fs \<Rightarrow> JObject fs) obj"

text \<open>\<open>FJsonObject::TryGetObjectField\<close>: the field when the object has it and it is an
  object.\<close>

definition TryGetObjectField :: "'n FJsonObject \<Rightarrow> FString \<Rightarrow> 'n FJsonObject option" where
  "TryGetObjectField obj k = (case map_of obj k of Some (JObject fs) \<Rightarrow> Some fs | _ \<Rightarrow> None)"

text \<open>
  Modelled from the spec: \<open>FJsonObject::GetStringField\<close> of the engine. A field that is
  missing reads as the empty string (the spec's "ok=true even if name missing (empty
  string)"), a string field as its value; what a field of another type reads as is the
  engine's conversion \<open>AsString\<close>.
\<close>

definition GetStringField :: "'n engine \<Rightarrow> 'n FJsonObject \<Rightarrow> FString \<Rightarrow> FString" where
  "GetStringField E obj k =
     (case map_of obj k of None \<Rightarrow> [] | Some (JString s) \<Rightarrow> s | Some v \<Rightarrow> AsString E v)"

text \<open>
  Modelled from the spec: \<open>FJsonObject::GetIntegerField\<close> of the engine. A field that is
  missing reads as 0 (a server object without a port gives "port 0"); a field that is
  present reads as the engine's conversion of its value to \<open>int32\<close>, \<open>AsInt32\<close>.
\<close>

definition GetIntegerField :: "'n engine \<Rightarrow> 'n FJsonObject \<Rightarrow> FString \<Rightarrow> 32 word" where
  "GetIntegerField E obj k = (case map_of obj k of None \<Rightarrow> 0 | Some v \<Rightarrow> AsInt32 E v)"

section \<open>Effects\<close>

text \<open>
  The code returns nothing and acts through callbacks, the log, the asset registry and
  the file system. A piece of code is modelled by the list of the effects it has, in
  order; a callback (\<open>TFunction<void(...)>\<close>) is a function from its arguments to the
  effects of calling it. \<open>Invoke r\<close> is the effect of a caller's continuation that
  records its argument \<open>r\<close>. Dereferencing a null \<open>TSharedPtr\<close> ends the code with
  \<open>NullDereference\<close>.
\<close>

datatype verbosity = Log | Error

datatype 'r event =
    UE_LOG verbosity FString
  | Invoke 'r
  | NullDereference
  | GetAssets FString bool
  | FileExistsQuery FString
  | LoadFile FString

fun invocations :: "'r event list \<Rightarrow> 'r list" where
  "invocations [] = []"
| "invocations (Invoke r # es) = r # invocations es"
| "invocations (e # es) = invocations es"

definition record1 :: "'a \<Rightarrow> 'a event list" where
  "record1 a = [Invoke a]"

definition record2 :: "'a \<Rightarrow> 'b \<Rightarrow> ('a \<times> 'b) event list" where
  "record2 a b = [Invoke (a, b)]"

section \<open>Transport (MCPClient.cpp)\<close>

record FHttpResponse =
  GetResponseCode :: "32 word"
  GetContentAsString :: FString

text \<open>
  The request handed to \<open>ProcessRequest\<close>: what \<open>SetURL\<close>, \<open>SetVerb\<close>, \<open>SetHeader\<close> and
  \<open>SetContentAsString\<close> stored, and the lambda bound to \<open>OnProcessRequestComplete\<close>. The
  lambda takes the response pointer (null when there is none) and
  \<open>bConnectedSuccessfully\<close>; it does not use the request pointer.
\<close>

record 'r IHttpRequest =
  GetURL :: FString
  GetVerb :: FString
  GetHeaders :: "(FString \<times> FString) list"
  GetContent :: FString
  OnProcessRequestComplete :: "FHttpResponse option \<Rightarrow> bool \<Rightarrow> 'r event list"

definition SendPostRequest ::
  "'n engine \<Rightarrow> FString \<Rightarrow> FString \<Rightarrow> (bool \<Rightarrow> 'n FJsonObject option \<Rightarrow> 'r event list)
     \<Rightarrow> 'r IHttpRequest" where
  "SendPostRequest E Url JsonPayload OnCompleteCallback =
    \<lparr> GetURL = Url, GetVerb = ''POST'',
      GetHeaders = [(''Content-Type'', ''application/json'')],
      GetContent = JsonPayload,
      OnProcessRequestComplete = (\<lambda>Response bConnectedSuccessfully.
        if bConnectedSuccessfully \<and> Response \<noteq> None then
          if GetResponseCode (the Response) = 200 then
            (case Deserialize E (GetContentAsString (the Response)) of
               Some JsonResponse \<Rightarrow> OnCompleteCallback True (Some JsonResponse)
             | None \<Rightarrow>
                 UE_LOG Error (TEXT_parse_failed @ GetContentAsString (the Response))
                 # OnCompleteCallback False None)
          else
            UE_LOG Error (TEXT_http_failed @ Printf_d (GetResponseCode (the Response)))
            # OnCompleteCallback False None
        else
          UE_LOG Error TEXT_connect_failed # OnCompleteCallback False None) \<rparr>"

definition SendGetRequest ::
  "'n engine \<Rightarrow> FString \<Rightarrow> (bool \<Rightarrow> 'n FJsonObject option \<Rightarrow> 'r event list)
     \<Rightarrow> 'r IHttpRequest" where
  "SendGetRequest E Url OnCompleteCallback =
    \<lparr> GetURL = Url, GetVerb = ''GET'',
      GetHeaders = [],
      GetContent = [],
      OnProcessRequestComplete = (\<lambda>Response bConnectedSuccessfully.
        if bConnectedSuccessfully \<and> Response \<noteq> None then
          if GetResponseCode (the Response) = 200 then
            (case Deserialize E (GetContentAsString (the Response)) of
               Some JsonResponse \<Rightarrow> OnCompleteCallback True (Some JsonResponse)
             | None \<Rightarrow>
                 UE_LOG Error (TEXT_parse_failed @ GetContentAsString (the Response))
                 # OnCompleteCallback False None)
          else
            UE_LOG Error (TEXT_http_failed @ Printf_d (GetResponseCode (the Response)))
            # OnCompleteCallback False None
        else
          UE_LOG Error TEXT_connect_failed # OnCompleteCallback False None) \<rparr>"

text \<open>
  The engine's HTTP stack completes a request it has processed by calling the bound
  lambda once, with the request, the response pointer and the connection flag. An
  exchange is the request, the response pointer and the flag the stack delivers, and its
  effects are those of the lambda.
\<close>

definition ProcessRequest :: "'r IHttpRequest \<Rightarrow> FHttpResponse option \<Rightarrow> bool \<Rightarrow> 'r event list" where
  "ProcessRequest Request Response bConnectedSuccessfully =
     OnProcessRequestComplete Request Response bConnectedSuccessfully"

text \<open>The spec's condition of success of an exchange: the connection was established, the
  response status is 200 and the body parses as a JSON object.\<close>

definition exchange_ok :: "'n engine \<Rightarrow> FHttpResponse option \<Rightarrow> bool \<Rightarrow> bool" where
  "exchange_ok E Response bConnectedSuccessfully =
     (bConnectedSuccessfully \<and>
      (case Response of None \<Rightarrow> False
       | Some R \<Rightarrow> GetResponseCode R = 200 \<and> Deserialize E (GetContentAsString R) \<noteq> None))"

text \<open>The body the continuation is given: the parsed object of a successful exchange,
  null otherwise.\<close>

definition parsed_body :: "'n engine \<Rightarrow> FHttpResponse option \<Rightarrow> bool \<Rightarrow> 'n FJsonObject option" where
  "parsed_body E Response bConnectedSuccessfully =
     (if exchange_ok E Response bConnectedSuccessfully
      then Deserialize E (GetContentAsString (the Response)) else None)"

text \<open>What a failed exchange writes to the log.\<close>

definition failure_log :: "'n engine \<Rightarrow> FHttpResponse option \<Rightarrow> bool \<Rightarrow> 'r event list" where
  "failure_log E Response bConnectedSuccessfully =
     (if bConnectedSuccessfully \<and> Response \<noteq> None then
        if GetResponseCode (the Response) = 200 then
          (case Deserialize E (GetContentAsString (the Response)) of
             Some JsonResponse \<Rightarrow> []
           | None \<Rightarrow> [UE_LOG Error (TEXT_parse_failed @ GetContentAsString (the Response))])
        else [UE_LOG Error (TEXT_http_failed @ Printf_d (GetResponseCode (the Response)))]
      else [UE_LOG Error TEXT_connect_failed])"

section \<open>Command client (MCPClient.cpp)\<close>

record FMCPClient =
  ServerURL :: FString

text \<open>The constructor asserts (\<open>check\<close>) that the HTTP module is enabled: where it is not,
  no client is constructed.\<close>

definition FMCPClient_ctor :: "'n engine \<Rightarrow> FMCPClient option" where
  "FMCPClient_ctor E =
     (if IsHttpEnabled E then Some \<lparr> ServerURL = ''http://127.0.0.1:8080'' \<rparr> else None)"

definition SetServerURL :: "FString \<Rightarrow> FMCPClient \<Rightarrow> FMCPClient \<times> 'r event list" where
  "SetServerURL InServerURL this =
     (this \<lparr> ServerURL := InServerURL \<rparr>, [UE_LOG Log (TEXT_url_set @ InServerURL)])"

definition CheckConnection ::
  "'n engine \<Rightarrow> FMCPClient \<Rightarrow> (bool \<Rightarrow> FString \<Rightarrow> 'r event list) \<Rightarrow> 'r IHttpRequest" where
  "CheckConnection E this OnCompleteCallback =
     SendGetRequest E (ServerURL this @ ''/status'')
       (\<lambda>bSuccess Response.
          if bSuccess then
            (case Response of
               None \<Rightarrow> [NullDereference]
             | Some Resp \<Rightarrow>
                 (let Status = GetStringField E Resp ''status'' in
                  if FString_eq Status ''running'' then OnCompleteCallback True TEXT_connected
                  else OnCompleteCallback False (TEXT_abnormal @ Status)))
          else OnCompleteCallback False TEXT_not_connected)"

definition ExecuteBlenderCommand ::
  "'n engine \<Rightarrow> FMCPClient \<Rightarrow> FString \<Rightarrow> 'n FJsonObject option
     \<Rightarrow> (bool \<Rightarrow> 'n FJsonObject option \<Rightarrow> 'r event list) \<Rightarrow> 'r IHttpRequest" where
  "ExecuteBlenderCommand E this Command Params OnCompleteCallback =
     (let RequestObj = SetObjectField ''params'' Params (SetStringField ''command'' Command []);
          JsonPayload = Serialize E RequestObj
      in SendPostRequest E (ServerURL this @ ''/api/blender/command'') JsonPayload
           OnCompleteCallback)"

definition ImportAsset ::
  "'n engine \<Rightarrow> FMCPClient \<Rightarrow> FString \<Rightarrow> FString
     \<Rightarrow> (bool \<Rightarrow> FString \<Rightarrow> 'r event list) \<Rightarrow> 'r IHttpRequest" where
  "ImportAsset E this AssetPath DestinationPath OnCompleteCallback =
     (let Params = SetStringField ''destination'' DestinationPath
                     (SetStringField ''path'' AssetPath []);
          RequestObj = SetObjectField ''params'' (Some Params)
                         (SetStringField ''command'' ''import_asset'' []);
          JsonPayload = Serialize E RequestObj
      in SendPostRequest E (ServerURL this @ ''/api/unreal/command'') JsonPayload
           (\<lambda>bSuccess Response.
              if bSuccess then
                (case Response of
                   None \<Rightarrow> [NullDereference]
                 | Some Resp \<Rightarrow>
                     (let AssetName =
                        (case TryGetObjectField Resp ''result'' of
                           Some ResultObj \<Rightarrow>
                             (case TryGetObjectField ResultObj ''asset_info'' of
                                Some AssetInfoObj \<Rightarrow> GetStringField E AssetInfoObj ''name''
                              | None \<Rightarrow> [])
                         | None \<Rightarrow> [])
                      in OnCompleteCallback True AssetName))
              else OnCompleteCallback False []))"

definition SetGameMode ::
  "'n engine \<Rightarrow> FMCPClient \<Rightarrow> FString \<Rightarrow> (bool \<Rightarrow> 'r event list) \<Rightarrow> 'r IHttpRequest" where
  "SetGameMode E this GameModePath OnCompleteCallback =
     (let Params = SetStringField ''game_mode'' GameModePath [];
          RequestObj = SetObjectField ''params'' (Some Params)
                         (SetStringField ''command'' ''set_game_mode'' []);
          JsonPayload = Serialize E RequestObj
      in SendPostRequest E (ServerURL this @ ''/api/unreal/command'') JsonPayload
           (\<lambda>bSuccess Response. OnCompleteCallback bSuccess))"

definition SaveLevel ::
  "'n engine \<Rightarrow> FMCPClient \<Rightarrow> (bool \<Rightarrow> 'r event list) \<Rightarrow> 'r IHttpRequest" where
  "SaveLevel E this OnCompleteCallback =
     (let RequestObj = SetObjectField ''params'' (Some [])
                         (SetStringField ''command'' ''save_level'' []);
          JsonPayload = Serialize E RequestObj
      in SendPostRequest E (ServerURL this @ ''/api/unreal/command'') JsonPayload
           (\<lambda>bSuccess Response. OnCompleteCallback bSuccess))"

text \<open>The value at \<open>result.asset_info.name\<close> of a response, when the response has it:
  \<open>result\<close> and \<open>asset_info\<close> are objects and \<open>asset_info\<close> has a field \<open>name\<close>.\<close>

definition result_asset_info_name :: "'n FJsonObject \<Rightarrow> 'n FJsonValue option" where
  "result_asset_info_name Resp =
     (case map_of Resp ''result'' of
        Some (JObject ResultObj) \<Rightarrow>
          (case map_of ResultObj ''asset_info'' of
             Some (JObject AssetInfoObj) \<Rightarrow> map_of AssetInfoObj ''name''
           | _ \<Rightarrow> None)
      | _ \<Rightarrow> None)"

text \<open>The name an import response decodes to: the empty string when the response lacks
  \<open>result.asset_info.name\<close>.\<close>

definition decoded_name :: "'n engine \<Rightarrow> 'n FJsonObject \<Rightarrow> FString" where
  "decoded_name E Resp =
     (case result_asset_info_name Resp of
        None \<Rightarrow> []
      | Some (JString s) \<Rightarrow> s
      | Some v \<Rightarrow> AsString E v)"

section \<open>Asset manager (MCPAssetManager.cpp)\<close>

text \<open>\<open>FMCPAssetImportResult\<close>; its constructor sets \<open>bSuccess\<close> to false and leaves the
  strings empty.\<close>

record FMCPAssetImportResult =
  bSuccess :: bool
  AssetPath :: FString
  AssetName :: FString
  ErrorMessage :: FString

definition FMCPAssetImportResult_ctor :: FMCPAssetImportResult where
  "FMCPAssetImportResult_ctor =
     \<lparr> bSuccess = False, AssetPath = [], AssetName = [], ErrorMessage = [] \<rparr>"

record UMCPAssetManager =
  MCPClient :: FMCPClient
  bInitialized :: bool

definition UMCPAssetManager_ctor :: "'n engine \<Rightarrow> UMCPAssetManager option" where
  "UMCPAssetManager_ctor E =
     (case FMCPClient_ctor E of
        None \<Rightarrow> None
      | Some client \<Rightarrow> Some \<lparr> MCPClient = client, bInitialized = False \<rparr>)"

text \<open>\<open>FPaths::ProjectConfigDir() / TEXT("mcp_settings.json")\<close>.\<close>

definition ConfigFilePath :: "'n engine \<Rightarrow> FString" where
  "ConfigFilePath E = PathAppend E (ProjectConfigDir E) ''mcp_settings.json''"

text \<open>\<open>Initialize\<close> returns its result, the manager after the call and the effects of the
  call: the queries of the file system and the log line of \<open>SetServerURL\<close>.\<close>

definition Initialize ::
  "'n engine \<Rightarrow> UMCPAssetManager \<Rightarrow> bool \<times> UMCPAssetManager \<times> 'r event list" where
  "Initialize E this =
     (if bInitialized this then (True, this, [])
      else
        (let (client, evs) =
           (if FileExists E (ConfigFilePath E) then
              (case LoadFileToString E (ConfigFilePath E) of
                 Some JsonContent \<Rightarrow>
                   (case Deserialize E JsonContent of
                      Some JsonObject \<Rightarrow>
                        (case TryGetObjectField JsonObject ''server'' of
                           Some ServerObj \<Rightarrow>
                             (let Host = GetStringField E ServerObj ''host'';
                                  Port = GetIntegerField E ServerObj ''port'';
                                  ServerUrl = ''http://'' @ Host @ '':'' @ Printf_d Port;
                                  (client', logged) = SetServerURL ServerUrl (MCPClient this)
                              in (client', LoadFile (ConfigFilePath E) # logged))
                         | None \<Rightarrow> (MCPClient this, [LoadFile (ConfigFilePath E)]))
                    | None \<Rightarrow> (MCPClient this, [LoadFile (ConfigFilePath E)]))
               | None \<Rightarrow> (MCPClient this, [LoadFile (ConfigFilePath E)]))
            else (MCPClient this, []))
         in (True, this \<lparr> MCPClient := client, bInitialized := True \<rparr>,
             FileExistsQuery (ConfigFilePath E) # evs)))"

text \<open>\<open>Get\<close>, from the static \<open>Instance\<close> (null before the first call): the manager it
  returns, which is the \<open>Instance\<close> from then on, and the effects of the call. There is no
  result where the constructor's assertion fails.\<close>

definition Get ::
  "'n engine \<Rightarrow> UMCPAssetManager option \<Rightarrow> (UMCPAssetManager \<times> 'r event list) option" where
  "Get E Instance =
     (case Instance of
        None \<Rightarrow>
          (case UMCPAssetManager_ctor E of
             None \<Rightarrow> None
           | Some new \<Rightarrow> (case Initialize E new of (r, this, evs) \<Rightarrow> Some (this, evs)))
      | Some this \<Rightarrow> Some (this, []))"

definition CheckServerConnection ::
  "'n engine \<Rightarrow> UMCPAssetManager \<Rightarrow> (bool \<Rightarrow> FString \<Rightarrow> 'r event list) \<Rightarrow> 'r IHttpRequest" where
  "CheckServerConnection E this OnCompleteCallback =
     CheckConnection E (MCPClient this) OnCompleteCallback"

definition ImportBlenderModel ::
  "'n engine \<Rightarrow> UMCPAssetManager \<Rightarrow> FString \<Rightarrow> FString
     \<Rightarrow> (FMCPAssetImportResult \<Rightarrow> 'r event list) \<Rightarrow> 'r IHttpRequest" where
  "ImportBlenderModel E this ModelPath DestinationPath OnCompleteCallback =
     ImportAsset E (MCPClient this) ModelPath DestinationPath
       (\<lambda>bOk Name.
          (let Result = FMCPAssetImportResult_ctor \<lparr> bSuccess := bOk \<rparr> in
           if bOk then
             (let Result1 = Result \<lparr> AssetName := Name \<rparr>;
                  Result2 = Result1 \<lparr> AssetPath := PathAppend E DestinationPath Name \<rparr>
              in [GetAssets DestinationPath True,
                  UE_LOG Log (TEXT_imported_1 @ ModelPath @ TEXT_imported_2 @ AssetPath Result2)]
                 @ OnCompleteCallback Result2)
           else
             (let Result1 = Result \<lparr> ErrorMessage := TEXT_import_failed @ ModelPath \<rparr>
              in UE_LOG Error (ErrorMessage Result1) # OnCompleteCallback Result1)))"

section \<open>Placing an asset in the level (MCPAssetManager.cpp)\<close>

text \<open>\<open>TEXT("could not load the asset: ")\<close>, the prefix of the \<open>%s\<close>.\<close>
definition TEXT_load_failed :: FString where
  "TEXT_load_failed = utf8 [227, 130, 162, 227, 130, 187, 227, 131, 131, 227, 131, 136, 227, 130,
     146, 232, 170, 173, 227, 129, 191, 232, 190, 188, 227, 130, 129, 227, 129, 190, 227, 129,
     155, 227, 130, 147, 227, 129, 167, 227, 129, 151, 227, 129, 159, 58, 32]"

text \<open>\<open>TEXT("asset '%s' placed in the level")\<close> and \<open>TEXT("blueprint '%s' placed in the
  level")\<close>: the text before the \<open>%s\<close> of each, and the text after it, which they share.\<close>
definition TEXT_asset_placed_1 :: FString where
  "TEXT_asset_placed_1 = utf8 [227, 130, 162, 227, 130, 187, 227, 131, 131, 227, 131, 136, 32, 39]"

definition TEXT_blueprint_placed_1 :: FString where
  "TEXT_blueprint_placed_1 = utf8 [227, 131, 150, 227, 131, 171, 227, 131, 188, 227, 131, 151,
     227, 131, 170, 227, 131, 179, 227, 131, 136, 32, 39]"

definition TEXT_placed_2 :: FString where
  "TEXT_placed_2 = utf8 [39, 32, 227, 130, 146, 227, 131, 172, 227, 131, 153, 227, 131, 171, 227,
     129, 171, 233, 133, 141, 231, 189, 174, 227, 129, 151, 227, 129, 190, 227, 129, 151, 227,
     129, 159]"

text \<open>\<open>TEXT("failed to place the asset: ")\<close>, the prefix of the \<open>%s\<close>.\<close>
definition TEXT_place_failed :: FString where
  "TEXT_place_failed = utf8 [227, 130, 162, 227, 130, 187, 227, 131, 131, 227, 131, 136, 227,
     129, 174, 233, 133, 141, 231, 189, 174, 227, 129, 171, 229, 164, 177, 230, 149, 151, 227,
     129, 151, 227, 129, 190, 227, 129, 151, 227, 129, 159, 58, 32]"

text \<open>
  What \<open>LoadObject\<close> returns, as the two casts of the code see it: a static mesh, a
  blueprint with its \<open>GeneratedClass\<close> (which may be null), or another object. Meshes and
  classes are named by strings, spawned actors by numbers. The types of \<open>FVector\<close> and
  \<open>FRotator\<close> are left open.
\<close>

datatype UObject = UStaticMesh FString | UBlueprint "FString option" | UOtherObject

text \<open>The editor as the code reads it: \<open>LoadObject\<close>, whether
  \<open>GEditor->GetEditorWorldContext().World()\<close> is a world, and the actor \<open>SpawnActor\<close> returns
  for a class, a location and a rotation (null when the spawn fails).\<close>

record ('v, 'q) editor =
  LoadObject :: "FString \<Rightarrow> UObject option"
  EditorWorld :: bool
  SpawnActor :: "FString \<Rightarrow> 'v \<Rightarrow> 'q \<Rightarrow> nat option"

datatype ENamedThreads = GameThread

text \<open>The effects of a placement. \<open>AsyncTask\<close> carries the arguments the posted lambda has
  captured; the lambda calls \<open>PlaceAssetInLevel\<close> with them. The others are the calls that
  change the world, and the log.\<close>

datatype ('v, 'q) world_event =
    W_LOG verbosity FString
  | AsyncTask ENamedThreads FString 'v 'q 'v FString
  | SpawnActorCall FString 'v 'q "nat option"
  | SetStaticMesh nat FString
  | SetActorScale3D nat 'v
  | SetActorLabel nat FString

definition placement_failed ::
  "FString \<Rightarrow> ('v, 'q) world_event list \<Rightarrow> bool \<times> ('v, 'q) world_event list" where
  "placement_failed Path evs = (False, evs @ [W_LOG Error (TEXT_place_failed @ Path)])"

text \<open>\<open>PlaceAssetInLevel\<close>, from the build flag \<open>WITH_EDITOR\<close>, the editor and
  \<open>IsInGameThread()\<close>. The flag is kept as the source has it, around the body between
  \<open>#if\<close> and \<open>#endif\<close>; the file includes \<open>Editor.h\<close> and \<open>EditorLevelLibrary.h\<close> outside
  the guard, so it is built with the editor only, and the flag is true in every build of
  it.\<close>

definition PlaceAssetInLevel ::
  "bool \<Rightarrow> ('v, 'q) editor \<Rightarrow> bool \<Rightarrow> FString \<Rightarrow> 'v \<Rightarrow> 'q \<Rightarrow> 'v \<Rightarrow> FString
     \<Rightarrow> bool \<times> ('v, 'q) world_event list" where
  "PlaceAssetInLevel WITH_EDITOR Ed IsInGameThread Path Location Rotation Scale ActorName =
     (if WITH_EDITOR then
        if \<not> IsInGameThread then
          (True, [AsyncTask GameThread Path Location Rotation Scale ActorName])
        else
          (case LoadObject Ed Path of
             None \<Rightarrow> (False, [W_LOG Error (TEXT_load_failed @ Path)])
           | Some (UStaticMesh StaticMesh) \<Rightarrow>
               if EditorWorld Ed then
                 (case SpawnActor Ed ''AStaticMeshActor'' Location Rotation of
                    Some MeshActor \<Rightarrow>
                      (True,
                       [SpawnActorCall ''AStaticMeshActor'' Location Rotation (Some MeshActor),
                        SetStaticMesh MeshActor StaticMesh,
                        SetActorScale3D MeshActor Scale]
                       @ (if ActorName \<noteq> [] then [SetActorLabel MeshActor ActorName] else [])
                       @ [W_LOG Log (TEXT_asset_placed_1 @ Path @ TEXT_placed_2)])
                  | None \<Rightarrow>
                      placement_failed Path
                        [SpawnActorCall ''AStaticMeshActor'' Location Rotation None])
               else placement_failed Path []
           | Some (UBlueprint GeneratedClass) \<Rightarrow>
               (case GeneratedClass of
                  Some BPClass \<Rightarrow>
                    if EditorWorld Ed then
                      (case SpawnActor Ed BPClass Location Rotation of
                         Some Actor \<Rightarrow>
                           (True,
                            [SpawnActorCall BPClass Location Rotation (Some Actor),
                             SetActorScale3D Actor Scale]
                            @ (if ActorName \<noteq> [] then [SetActorLabel Actor ActorName] else [])
                            @ [W_LOG Log (TEXT_blueprint_placed_1 @ Path @ TEXT_placed_2)])
                       | None \<Rightarrow>
                           placement_failed Path [SpawnActorCall BPClass Location Rotation None])
                    else placement_failed Path []
                | None \<Rightarrow> placement_failed Path [])
           | Some UOtherObject \<Rightarrow> placement_failed Path [])
      else placement_failed Path [])"

text \<open>Running a posted task on the game thread: the lambda's call of \<open>PlaceAssetInLevel\<close>,
  whose result the lambda drops. Other effects are not tasks and run nothing.\<close>

fun RunTask :: "bool \<Rightarrow> ('v, 'q) editor \<Rightarrow> ('v, 'q) world_event \<Rightarrow> ('v, 'q) world_event list" where
  "RunTask WITH_EDITOR Ed (AsyncTask GameThread Path Location Rotation Scale ActorName) =
     snd (PlaceAssetInLevel WITH_EDITOR Ed True Path Location Rotation Scale ActorName)"
| "RunTask WITH_EDITOR Ed e = []"

text \<open>The effects that change the world.\<close>

fun mutates_world :: "('v, 'q) world_event \<Rightarrow> bool" where
  "mutates_world (SpawnActorCall cls l r a) = True"
| "mutates_world (SetStaticMesh a m) = True"
| "mutates_world (SetActorScale3D a s) = True"
| "mutates_world (SetActorLabel a n) = True"
| "mutates_world e = False"

section \<open>A concrete engine\<close>

text \<open>
  An engine to run the model on: JSON numbers are integers, the reader knows seven texts,
  \<open>/\<close> joins with a slash, and the configuration file
  \<open>Config/mcp_settings.json\<close> holds a server object with host \<open>h\<close> and port 9000.
\<close>

definition demo_Deserialize :: "FString \<Rightarrow> int FJsonObject option" where
  \<open>demo_Deserialize s =
     (if s = ''{"server":{"host":"h","port":9000}}'' then
        Some [(''server'', JObject [(''host'', JString ''h''), (''port'', JNumber 9000)])]
      else if s = ''{"server":{"port":9000}}'' then
        Some [(''server'', JObject [(''port'', JNumber 9000)])]
      else if s = ''{"server":{}}'' then
        Some [(''server'', JObject [])]
      else if s = ''{"status":"running"}'' then
        Some [(''status'', JString ''running'')]
      else if s = ''{"status":"degraded"}'' then
        Some [(''status'', JString ''degraded'')]
      else if s = ''{"status":"RUNNING"}'' then
        Some [(''status'', JString ''RUNNING'')]
      else if s = ''{"result":{"asset_info":{"name":"PlayerShip"}}}'' then
        Some [(''result'', JObject [(''asset_info'', JObject [(''name'', JString ''PlayerShip'')])])]
      else None)\<close>

definition demo_engine :: "int engine" where
  \<open>demo_engine =
     \<lparr> Deserialize = demo_Deserialize,
       Serialize = (\<lambda>obj. []),
       AsString = (\<lambda>v. []),
       AsInt32 = (\<lambda>v. case v of JNumber n \<Rightarrow> word_of_int n | _ \<Rightarrow> 0),
       PathAppend = (\<lambda>a b. a @ ''/'' @ b),
       IsHttpEnabled = True,
       ProjectConfigDir = ''Config'',
       FileExists = (\<lambda>p. p = ''Config/mcp_settings.json''),
       LoadFileToString = (\<lambda>p. if p = ''Config/mcp_settings.json''
                                then Some ''{"server":{"host":"h","port":9000}}'' else None) \<rparr>\<close>

text \<open>The same engine without the configuration file, with a configuration file whose
  server object has a port and no host, and with one whose server object is empty.\<close>

definition demo_engine_no_file :: "int engine" where
  "demo_engine_no_file = demo_engine \<lparr> FileExists := (\<lambda>p. False) \<rparr>"

definition demo_engine_no_host :: "int engine" where
  \<open>demo_engine_no_host =
     demo_engine \<lparr> LoadFileToString := (\<lambda>p. Some ''{"server":{"port":9000}}'') \<rparr>\<close>

definition demo_engine_empty_server :: "int engine" where
  \<open>demo_engine_empty_server =
     demo_engine \<lparr> LoadFileToString := (\<lambda>p. Some ''{"server":{}}'') \<rparr>\<close>

text \<open>The manager as its constructor leaves it, and as \<open>Initialize\<close> leaves it on the
  concrete engine.\<close>

definition demo_manager_new :: UMCPAssetManager where
  "demo_manager_new =
     \<lparr> MCPClient = \<lparr> ServerURL = ''http://127.0.0.1:8080'' \<rparr>, bInitialized = False \<rparr>"

definition demo_manager_ready :: UMCPAssetManager where
  "demo_manager_ready =
     \<lparr> MCPClient = \<lparr> ServerURL = ''http://h:9000'' \<rparr>, bInitialized = True \<rparr>"

text \<open>An editor with a world, where \<open>/Game/X\<close> is a static mesh and every spawn gives
  the actor 1.\<close>

definition demo_editor :: "(int \<times> int \<times> int, int \<times> int \<times> int) editor" where
  "demo_editor =
     \<lparr> LoadObject = (\<lambda>p. if p = ''/Game/X'' then Some (UStaticMesh ''X'') else None),
       EditorWorld = True,
       SpawnActor = (\<lambda>c l r. Some 1) \<rparr>"

section \<open>Properties of the transport\<close>

lemma invocations_append [simp]: "invocations (xs @ ys) = invocations xs @ invocations ys"
  by (induction xs rule: invocations.induct) simp_all

lemma invocations_failure_log [simp]: "invocations (failure_log E R c) = []"
  by (simp add: failure_log_def split: option.splits)

lemma SendPostRequest_complete:
  "ProcessRequest (SendPostRequest E u p k) R c =
     failure_log E R c @ k (exchange_ok E R c) (parsed_body E R c)"
  by (cases R)
     (auto simp: ProcessRequest_def SendPostRequest_def failure_log_def exchange_ok_def
        parsed_body_def split: option.splits)

lemma SendGetRequest_complete:
  "ProcessRequest (SendGetRequest E u k) R c =
     failure_log E R c @ k (exchange_ok E R c) (parsed_body E R c)"
  by (cases R)
     (auto simp: ProcessRequest_def SendGetRequest_def failure_log_def exchange_ok_def
        parsed_body_def split: option.splits)

lemma parsed_body_None_iff: "parsed_body E R c = None \<longleftrightarrow> \<not> exchange_ok E R c"
  by (cases R) (auto simp: parsed_body_def exchange_ok_def)

text \<open>
  C1. For every exchange of \<open>SendGetRequest\<close> and of \<open>SendPostRequest\<close> the continuation
  is given success = true exactly when the connection was established, the status is 200
  and the body parses as a JSON object, and then the parsed object; in every other
  outcome it is given success = false and a null body.
\<close>

theorem C1_transport_success_iff:
  "invocations (ProcessRequest (SendGetRequest E u record2) R c)
     = [(c \<and> (case R of None \<Rightarrow> False
               | Some r \<Rightarrow> GetResponseCode r = 200 \<and> Deserialize E (GetContentAsString r) \<noteq> None),
         if c \<and> (case R of None \<Rightarrow> False
               | Some r \<Rightarrow> GetResponseCode r = 200 \<and> Deserialize E (GetContentAsString r) \<noteq> None)
         then Deserialize E (GetContentAsString (the R)) else None)]
   \<and> invocations (ProcessRequest (SendPostRequest E u p record2) R c)
     = [(c \<and> (case R of None \<Rightarrow> False
               | Some r \<Rightarrow> GetResponseCode r = 200 \<and> Deserialize E (GetContentAsString r) \<noteq> None),
         if c \<and> (case R of None \<Rightarrow> False
               | Some r \<Rightarrow> GetResponseCode r = 200 \<and> Deserialize E (GetContentAsString r) \<noteq> None)
         then Deserialize E (GetContentAsString (the R)) else None)]"
  by (simp add: SendGetRequest_complete SendPostRequest_complete record2_def
        exchange_ok_def parsed_body_def)

section \<open>Properties of the command client\<close>

lemma parsed_body_Some: "exchange_ok E R c \<Longrightarrow> \<exists>obj. parsed_body E R c = Some obj"
  by (cases R) (auto simp: parsed_body_def exchange_ok_def)

lemma CheckConnection_complete:
  "ProcessRequest (CheckConnection E this k) R c =
     failure_log E R c @
     (if exchange_ok E R c then
        (if FString_eq (GetStringField E (the (parsed_body E R c)) ''status'') ''running''
         then k True TEXT_connected
         else k False (TEXT_abnormal @ GetStringField E (the (parsed_body E R c)) ''status''))
      else k False TEXT_not_connected)"
  using parsed_body_Some [of E R c]
  by (auto simp: CheckConnection_def SendGetRequest_complete Let_def)

lemma decoded_name_eq:
  "(case TryGetObjectField Resp ''result'' of
      Some ResultObj \<Rightarrow>
        (case TryGetObjectField ResultObj ''asset_info'' of
           Some AssetInfoObj \<Rightarrow> GetStringField E AssetInfoObj ''name''
         | None \<Rightarrow> [])
    | None \<Rightarrow> []) = decoded_name E Resp"
  by (simp add: decoded_name_def result_asset_info_name_def TryGetObjectField_def
        GetStringField_def split: option.splits FJsonValue.splits)

lemma ImportAsset_complete:
  "ProcessRequest (ImportAsset E this a d k) R c =
     failure_log E R c @
     (if exchange_ok E R c then k True (decoded_name E (the (parsed_body E R c)))
      else k False [])"
  using parsed_body_Some [of E R c]
  by (auto simp: ImportAsset_def SendPostRequest_complete Let_def decoded_name_eq)

lemma SetGameMode_complete:
  "ProcessRequest (SetGameMode E this g k) R c = failure_log E R c @ k (exchange_ok E R c)"
  by (simp add: SetGameMode_def SendPostRequest_complete Let_def)

lemma SaveLevel_complete:
  "ProcessRequest (SaveLevel E this k) R c = failure_log E R c @ k (exchange_ok E R c)"
  by (simp add: SaveLevel_def SendPostRequest_complete Let_def)

lemma ExecuteBlenderCommand_complete:
  "ProcessRequest (ExecuteBlenderCommand E this cmd ps k) R c =
     failure_log E R c @ k (exchange_ok E R c) (parsed_body E R c)"
  by (simp add: ExecuteBlenderCommand_def SendPostRequest_complete Let_def)

lemma utf8_Cons_not_Nil [simp]: "utf8 (b # bs) \<noteq> []"
  by (simp add: utf8_def)

lemma ToLower_running: "map ToLower ''running'' = ''running''"
  by (simp add: ToLower_def)

lemma FString_eq_running: "FString_eq s ''running'' \<longleftrightarrow> map ToLower s = ''running''"
  by (simp only: FString_eq_def ToLower_running)

text \<open>
  C3 (amended). \<open>CheckConnection\<close>: when the exchange succeeds and the \<open>status\<close> field of
  the response reads "running" in any case of its letters (the comparison is \<open>operator==\<close>
  of \<open>FString\<close>), the continuation is given true and the message "connected to the MCP
  server"; when the exchange succeeds and the field reads anything else, false and the
  message "the state of the MCP server is abnormal: " followed by what the field reads;
  when the exchange fails, false and the message "could not connect to the MCP server".
  The three messages are not empty.
\<close>

theorem C3_check_connection:
  "invocations (ProcessRequest (CheckConnection E this record2) R c) =
     [if exchange_ok E R c then
        (if map ToLower (GetStringField E (the (parsed_body E R c)) ''status'') = ''running''
         then (True, TEXT_connected)
         else (False, TEXT_abnormal @ GetStringField E (the (parsed_body E R c)) ''status''))
      else (False, TEXT_not_connected)]
   \<and> TEXT_connected \<noteq> [] \<and> TEXT_abnormal \<noteq> [] \<and> TEXT_not_connected \<noteq> []"
  by (simp add: CheckConnection_complete record2_def TEXT_connected_def TEXT_abnormal_def
        TEXT_not_connected_def FString_eq_running)

text \<open>
  C9. \<open>ImportAsset\<close>: when the exchange succeeds the continuation is given true and the
  name the response decodes to, which is the empty string when the response lacks
  \<open>result.asset_info.name\<close>; when the exchange fails it is given false and the empty
  string.
\<close>

theorem C9_import_asset_name:
  "invocations (ProcessRequest (ImportAsset E this a d record2) R c) =
     [if exchange_ok E R c then
        (True, case result_asset_info_name (the (parsed_body E R c)) of
                 None \<Rightarrow> []
               | Some (JString s) \<Rightarrow> s
               | Some v \<Rightarrow> AsString E v)
      else (False, [])]"
  by (simp add: ImportAsset_complete record2_def decoded_name_def)

text \<open>
  C5. The requests of \<open>ImportAsset\<close>, \<open>SetGameMode\<close> and \<open>SaveLevel\<close>, the operations that
  post to \<open>/api/unreal/command\<close>: the body is the serialization of an object whose
  \<open>command\<close> is "import_asset" with \<open>params\<close> \<open>{path, destination}\<close>, "set_game_mode" with
  \<open>params\<close> \<open>{game_mode}\<close>, and "save_level" with \<open>params\<close> \<open>{}\<close>.
\<close>

theorem C5_unreal_command_bodies:
  "GetURL (ImportAsset E this a d k1) = ServerURL this @ ''/api/unreal/command''
   \<and> GetVerb (ImportAsset E this a d k1) = ''POST''
   \<and> GetContent (ImportAsset E this a d k1) =
       Serialize E [(''command'', JString ''import_asset''),
                    (''params'', JObject [(''path'', JString a), (''destination'', JString d)])]
   \<and> GetURL (SetGameMode E this g k2) = ServerURL this @ ''/api/unreal/command''
   \<and> GetVerb (SetGameMode E this g k2) = ''POST''
   \<and> GetContent (SetGameMode E this g k2) =
       Serialize E [(''command'', JString ''set_game_mode''),
                    (''params'', JObject [(''game_mode'', JString g)])]
   \<and> GetURL (SaveLevel E this k3) = ServerURL this @ ''/api/unreal/command''
   \<and> GetVerb (SaveLevel E this k3) = ''POST''
   \<and> GetContent (SaveLevel E this k3) =
       Serialize E [(''command'', JString ''save_level''), (''params'', JObject [])]"
  by (simp add: ImportAsset_def SetGameMode_def SaveLevel_def SendPostRequest_def Let_def
        SetStringField_def SetObjectField_def)

section \<open>Properties of the asset manager\<close>

lemma NullDereference_failure_log: "NullDereference \<notin> set (failure_log E R c)"
  by (simp add: failure_log_def split: option.splits)

lemma ImportBlenderModel_complete:
  "ProcessRequest (ImportBlenderModel E this m d k) R c =
     failure_log E R c @
     (if exchange_ok E R c then
        [GetAssets d True,
         UE_LOG Log (TEXT_imported_1 @ m @ TEXT_imported_2
                     @ PathAppend E d (decoded_name E (the (parsed_body E R c))))]
        @ k \<lparr> bSuccess = True,
              AssetPath = PathAppend E d (decoded_name E (the (parsed_body E R c))),
              AssetName = decoded_name E (the (parsed_body E R c)),
              ErrorMessage = [] \<rparr>
      else
        UE_LOG Error (TEXT_import_failed @ m)
        # k \<lparr> bSuccess = False, AssetPath = [], AssetName = [],
                ErrorMessage = TEXT_import_failed @ m \<rparr>)"
  by (simp add: ImportBlenderModel_def ImportAsset_complete Let_def
        FMCPAssetImportResult_ctor_def)

text \<open>
  C2. \<open>ImportBlenderModel\<close>: when the import succeeds the continuation is given a result
  with \<open>bSuccess\<close> true, \<open>AssetName\<close> the decoded name and \<open>AssetPath\<close> the destination
  path joined with that name by the path operator \<open>/\<close>; when the import fails it is
  given \<open>bSuccess\<close> false, an empty \<open>AssetPath\<close> and the error message "failed to import
  the asset: " followed by the model path, which is not empty.
\<close>

theorem C2_import_blender_model:
  "invocations (ProcessRequest (ImportBlenderModel E this m d record1) R c) =
     [if exchange_ok E R c then
        \<lparr> bSuccess = True,
          AssetPath = PathAppend E d (decoded_name E (the (parsed_body E R c))),
          AssetName = decoded_name E (the (parsed_body E R c)),
          ErrorMessage = [] \<rparr>
      else
        \<lparr> bSuccess = False, AssetPath = [], AssetName = [],
          ErrorMessage = TEXT_import_failed @ m \<rparr>]
   \<and> TEXT_import_failed @ m \<noteq> []"
  by (simp add: ImportBlenderModel_complete record1_def TEXT_import_failed_def)

text \<open>
  C4. For each asynchronous operation (\<open>CheckConnection\<close>, \<open>ExecuteBlenderCommand\<close>,
  \<open>ImportAsset\<close>, \<open>SetGameMode\<close>, \<open>SaveLevel\<close>, \<open>ImportBlenderModel\<close>,
  \<open>CheckServerConnection\<close>), every input and every outcome the HTTP stack delivers, the
  continuation is invoked exactly once, and no null pointer is dereferenced on the way.
\<close>

theorem C4_continuation_once:
  "length (invocations (ProcessRequest (CheckConnection E cl record2) R c)) = 1
   \<and> NullDereference \<notin> set (ProcessRequest (CheckConnection E cl record2) R c)
   \<and> length (invocations (ProcessRequest (ExecuteBlenderCommand E cl cmd ps record2) R c)) = 1
   \<and> NullDereference \<notin> set (ProcessRequest (ExecuteBlenderCommand E cl cmd ps record2) R c)
   \<and> length (invocations (ProcessRequest (ImportAsset E cl a d record2) R c)) = 1
   \<and> NullDereference \<notin> set (ProcessRequest (ImportAsset E cl a d record2) R c)
   \<and> length (invocations (ProcessRequest (SetGameMode E cl g record1) R c)) = 1
   \<and> NullDereference \<notin> set (ProcessRequest (SetGameMode E cl g record1) R c)
   \<and> length (invocations (ProcessRequest (SaveLevel E cl record1) R c)) = 1
   \<and> NullDereference \<notin> set (ProcessRequest (SaveLevel E cl record1) R c)
   \<and> length (invocations (ProcessRequest (ImportBlenderModel E this a d record1) R c)) = 1
   \<and> NullDereference \<notin> set (ProcessRequest (ImportBlenderModel E this a d record1) R c)
   \<and> length (invocations (ProcessRequest (CheckServerConnection E this record2) R c)) = 1
   \<and> NullDereference \<notin> set (ProcessRequest (CheckServerConnection E this record2) R c)"
  by (simp add: CheckConnection_complete ExecuteBlenderCommand_complete ImportAsset_complete
        SetGameMode_complete SaveLevel_complete ImportBlenderModel_complete
        CheckServerConnection_def record1_def record2_def NullDereference_failure_log)

section \<open>Properties of the configuration\<close>







lemma Get_first:
  "Get E None = Some (this, evs) \<Longrightarrow>
     \<exists>r. Initialize E \<lparr> MCPClient = \<lparr> ServerURL = ''http://127.0.0.1:8080'' \<rparr>,
                         bInitialized = False \<rparr> = (r, this, evs)"
  by (auto simp: Get_def UMCPAssetManager_ctor_def FMCPClient_ctor_def
        split: option.splits if_splits prod.splits)

lemma Initialize_default:
  assumes "\<not> bInitialized m"
      and "Initialize E m = (r, this, evs)"
      and "\<not> FileExists E (ConfigFilePath E)
           \<or> LoadFileToString E (ConfigFilePath E) = None
           \<or> (\<exists>body. LoadFileToString E (ConfigFilePath E) = Some body \<and> Deserialize E body = None)"
  shows "MCPClient this = MCPClient m"
  using assms by (auto simp: Initialize_def Let_def split: if_splits option.splits)

lemma Initialize_server:
  assumes "\<not> bInitialized m"
      and "Initialize E m = (r, this, evs)"
      and "FileExists E (ConfigFilePath E)"
      and "LoadFileToString E (ConfigFilePath E) = Some body"
      and "Deserialize E body = Some doc"
      and "map_of doc ''server'' = Some (JObject srv)"
  shows "ServerURL (MCPClient this) =
           ''http://'' @ GetStringField E srv ''host'' @ '':''
           @ Printf_d (GetIntegerField E srv ''port'')"
  using assms
  by (auto simp: Initialize_def Let_def TryGetObjectField_def SetServerURL_def)

lemma request_urls:
  "GetURL (CheckConnection E cl k3) = ServerURL cl @ ''/status''"
  "GetURL (ExecuteBlenderCommand E cl cmd ps k4) = ServerURL cl @ ''/api/blender/command''"
  "GetURL (ImportAsset E cl a b k5) = ServerURL cl @ ''/api/unreal/command''"
  "GetURL (SetGameMode E cl g k6) = ServerURL cl @ ''/api/unreal/command''"
  "GetURL (SaveLevel E cl k7) = ServerURL cl @ ''/api/unreal/command''"
  by (simp_all add: CheckConnection_def ExecuteBlenderCommand_def ImportAsset_def
        SetGameMode_def SaveLevel_def SendGetRequest_def SendPostRequest_def Let_def)

text \<open>
  C6. After the first \<open>Get\<close>: when the configuration file is missing, cannot be loaded or
  does not parse, the client URL is the default \<open>http://127.0.0.1:8080\<close>; when it parses to
  a document whose server object has the string \<open>h\<close> as host and a port the engine reads
  as \<open>p\<close>, the client URL is \<open>http://h:p\<close>. Later calls of \<open>Get\<close> return the same manager,
  and every request of the manager and of its client is addressed to the client URL
  followed by the path of the operation.
\<close>

theorem C6_config_origin:
  fixes evs :: "'r event list"
  assumes "Get E None = Some (this, evs)"
  shows "((\<not> FileExists E (ConfigFilePath E)
           \<or> LoadFileToString E (ConfigFilePath E) = None
           \<or> (\<exists>body. LoadFileToString E (ConfigFilePath E) = Some body
                     \<and> Deserialize E body = None))
          \<longrightarrow> ServerURL (MCPClient this) = ''http://127.0.0.1:8080'')
       \<and> (FileExists E (ConfigFilePath E)
          \<and> LoadFileToString E (ConfigFilePath E) = Some body
          \<and> Deserialize E body = Some doc
          \<and> map_of doc ''server'' = Some (JObject srv)
          \<and> map_of srv ''host'' = Some (JString h)
          \<and> map_of srv ''port'' = Some v \<and> AsInt32 E v = p
          \<longrightarrow> ServerURL (MCPClient this) = ''http://'' @ h @ '':'' @ Printf_d p)
       \<and> Get E (Some this) = Some (this, ([] :: 'r event list))
       \<and> GetURL (CheckServerConnection E this ka) = ServerURL (MCPClient this) @ ''/status''
       \<and> GetURL (ImportBlenderModel E this m d kb)
           = ServerURL (MCPClient this) @ ''/api/unreal/command''
       \<and> GetURL (CheckConnection E (MCPClient this) kc) = ServerURL (MCPClient this) @ ''/status''
       \<and> GetURL (ExecuteBlenderCommand E (MCPClient this) cmd ps kd)
           = ServerURL (MCPClient this) @ ''/api/blender/command''
       \<and> GetURL (ImportAsset E (MCPClient this) a b ke)
           = ServerURL (MCPClient this) @ ''/api/unreal/command''
       \<and> GetURL (SetGameMode E (MCPClient this) g kf)
           = ServerURL (MCPClient this) @ ''/api/unreal/command''
       \<and> GetURL (SaveLevel E (MCPClient this) kg)
           = ServerURL (MCPClient this) @ ''/api/unreal/command''"
proof -
  let ?m = "\<lparr> MCPClient = \<lparr> ServerURL = ''http://127.0.0.1:8080'' \<rparr>, bInitialized = False \<rparr>"
  from Get_first [OF assms] obtain r where init: "Initialize E ?m = (r, this, evs)" ..
  have fresh: "\<not> bInitialized ?m" by simp
  have A: "(\<not> FileExists E (ConfigFilePath E)
           \<or> LoadFileToString E (ConfigFilePath E) = None
           \<or> (\<exists>body. LoadFileToString E (ConfigFilePath E) = Some body
                     \<and> Deserialize E body = None))
          \<longrightarrow> ServerURL (MCPClient this) = ''http://127.0.0.1:8080''"
    using Initialize_default [OF fresh init] by auto
  have B: "FileExists E (ConfigFilePath E)
          \<and> LoadFileToString E (ConfigFilePath E) = Some body
          \<and> Deserialize E body = Some doc
          \<and> map_of doc ''server'' = Some (JObject srv)
          \<and> map_of srv ''host'' = Some (JString h)
          \<and> map_of srv ''port'' = Some v \<and> AsInt32 E v = p
          \<longrightarrow> ServerURL (MCPClient this) = ''http://'' @ h @ '':'' @ Printf_d p"
    using Initialize_server [OF fresh init, of body doc srv]
    by (auto simp: GetStringField_def GetIntegerField_def)
  have C: "Get E (Some this) = Some (this, ([] :: 'r event list))"
    by (simp add: Get_def)
  show ?thesis
    using A B C
    by (simp add: request_urls CheckServerConnection_def ImportBlenderModel_def)
qed

text \<open>
  C10 (amended). When the configuration file is present and parses to a document with a
  server object, the client URL is rebuilt as \<open>http://<host>:<port>\<close> from what
  \<open>GetStringField\<close> and \<open>GetIntegerField\<close> read: a missing host reads as the empty string and
  a missing port as 0, so that a server object missing both gives \<open>http://:0\<close>, which is
  not the default.
\<close>

theorem C10_server_object_rebuilds_url:
  assumes "Get E None = Some (this, evs)"
      and "FileExists E (ConfigFilePath E)"
      and "LoadFileToString E (ConfigFilePath E) = Some body"
      and "Deserialize E body = Some doc"
      and "map_of doc ''server'' = Some (JObject srv)"
  shows "ServerURL (MCPClient this) =
           ''http://'' @ GetStringField E srv ''host'' @ '':''
           @ Printf_d (GetIntegerField E srv ''port'')
       \<and> (map_of srv ''host'' = None \<longrightarrow> GetStringField E srv ''host'' = [])
       \<and> (map_of srv ''port'' = None \<longrightarrow> Printf_d (GetIntegerField E srv ''port'') = ''0'')
       \<and> (map_of srv ''host'' = None \<and> map_of srv ''port'' = None
          \<longrightarrow> ServerURL (MCPClient this) = ''http://:0''
              \<and> ServerURL (MCPClient this) \<noteq> ''http://127.0.0.1:8080'')"
proof -
  let ?m = "\<lparr> MCPClient = \<lparr> ServerURL = ''http://127.0.0.1:8080'' \<rparr>, bInitialized = False \<rparr>"
  from Get_first [OF assms(1)] obtain r where init: "Initialize E ?m = (r, this, evs)" ..
  have fresh: "\<not> bInitialized ?m" by simp
  have zero: "Printf_d 0 = ''0''"
    by (simp add: Printf_d_def dec_nat.simps)
  have url: "ServerURL (MCPClient this) =
           ''http://'' @ GetStringField E srv ''host'' @ '':''
           @ Printf_d (GetIntegerField E srv ''port'')"
    by (rule Initialize_server [OF fresh init assms(2-5)])
  show ?thesis
    using url zero by (auto simp: GetStringField_def GetIntegerField_def)
qed



lemma Printf_d_9000: "Printf_d 9000 = ''9000''"
  by (simp add: Printf_d_def dec_nat.simps)

lemma Printf_d_0: "Printf_d 0 = ''0''"
  by (simp add: Printf_d_def dec_nat.simps)

lemma demo_AsInt32 [simp]: "AsInt32 demo_engine (JNumber 9000) = 9000"
  by (simp add: demo_engine_def)

section \<open>The model on the concrete engine\<close>

lemmas demo_defs =
  demo_engine_def demo_engine_no_file_def demo_engine_no_host_def demo_engine_empty_server_def
  demo_Deserialize_def demo_manager_new_def demo_manager_ready_def ConfigFilePath_def

lemmas run_defs =
  Get_def UMCPAssetManager_ctor_def FMCPClient_ctor_def Initialize_def Let_def
  TryGetObjectField_def GetStringField_def GetIntegerField_def SetServerURL_def
  Printf_d_9000 Printf_d_0


text \<open>C6 on the concrete engine, with the configuration file (host \<open>h\<close>, port 9000) and
  without it.\<close>

theorem C6_config_origin_witness:
  "(Get demo_engine None :: (UMCPAssetManager \<times> unit event list) option) =
     Some (demo_manager_ready,
       [FileExistsQuery ''Config/mcp_settings.json'', LoadFile ''Config/mcp_settings.json'',
        UE_LOG Log (TEXT_url_set @ ''http://h:9000'')])
   \<and> ServerURL (MCPClient demo_manager_ready) = ''http://h:9000''
   \<and> GetURL (CheckServerConnection demo_engine demo_manager_ready
               (record2 :: bool \<Rightarrow> FString \<Rightarrow> (bool \<times> FString) event list))
       = ''http://h:9000/status''
   \<and> (Get demo_engine_no_file None :: (UMCPAssetManager \<times> unit event list) option) =
       Some (demo_manager_new \<lparr> bInitialized := True \<rparr>,
         [FileExistsQuery ''Config/mcp_settings.json''])
   \<and> ServerURL (MCPClient (demo_manager_new \<lparr> bInitialized := True \<rparr>)) = ''http://127.0.0.1:8080''"
proof -
  have g1: "(Get demo_engine None :: (UMCPAssetManager \<times> unit event list) option) =
     Some (demo_manager_ready,
       [FileExistsQuery ''Config/mcp_settings.json'', LoadFile ''Config/mcp_settings.json'',
        UE_LOG Log (TEXT_url_set @ ''http://h:9000'')])"
    by (simp add: demo_defs run_defs)
  have g2: "(Get demo_engine_no_file None :: (UMCPAssetManager \<times> unit event list) option) =
       Some (demo_manager_new \<lparr> bInitialized := True \<rparr>,
         [FileExistsQuery ''Config/mcp_settings.json''])"
    by (simp add: demo_defs run_defs)
  have conf: \<open>FileExists demo_engine (ConfigFilePath demo_engine)
      \<and> LoadFileToString demo_engine (ConfigFilePath demo_engine)
          = Some ''{"server":{"host":"h","port":9000}}''
      \<and> Deserialize demo_engine ''{"server":{"host":"h","port":9000}}''
          = Some [(''server'', JObject [(''host'', JString ''h''), (''port'', JNumber 9000)])]
      \<and> map_of [(''server'', JObject [(''host'', JString ''h''), (''port'', JNumber (9000::int))])]
            ''server'' = Some (JObject [(''host'', JString ''h''), (''port'', JNumber 9000)])
      \<and> map_of [(''host'', JString ''h''), (''port'', JNumber (9000::int))] ''host''
          = Some (JString ''h'')
      \<and> map_of [(''host'', JString ''h''), (''port'', JNumber (9000::int))] ''port''
          = Some (JNumber 9000)
      \<and> AsInt32 demo_engine (JNumber 9000) = 9000\<close>
    by (simp add: demo_defs)
  have nofile: "\<not> FileExists demo_engine_no_file (ConfigFilePath demo_engine_no_file)"
    by (simp add: demo_defs)
  have p: "Printf_d 9000 = ''9000''"
    by (simp add: Printf_d_def dec_nat.simps)
  have u1: "ServerURL (MCPClient demo_manager_ready) = ''http://'' @ ''h'' @ '':'' @ Printf_d 9000"
    by (rule C6_config_origin [OF g1,
        where body = \<open>''{"server":{"host":"h","port":9000}}''\<close>
        and doc = "[(''server'', JObject [(''host'', JString ''h''), (''port'', JNumber 9000)])]"
        and srv = "[(''host'', JString ''h''), (''port'', JNumber 9000)]"
        and h = "''h''" and v = "JNumber 9000" and p = 9000,
        THEN conjunct2, THEN conjunct1, THEN mp])
       (use conf in simp)
  have u2: "GetURL (CheckServerConnection demo_engine demo_manager_ready
               (record2 :: bool \<Rightarrow> FString \<Rightarrow> (bool \<times> FString) event list))
          = ServerURL (MCPClient demo_manager_ready) @ ''/status''"
    by (rule C6_config_origin [OF g1, THEN conjunct2, THEN conjunct2, THEN conjunct2,
        THEN conjunct1])
  have u3: "ServerURL (MCPClient (demo_manager_new \<lparr> bInitialized := True \<rparr>))
      = ''http://127.0.0.1:8080''"
    by (rule C6_config_origin [OF g2, THEN conjunct1, THEN mp]) (use nofile in simp)
  from g1 g2 u1 u2 u3 p show ?thesis by simp
qed

text \<open>
  C10 as stated fails: a server object that is missing the host and has port 9000 gives
  \<open>http://:9000\<close>, not \<open>http://:0\<close>.
\<close>

theorem C10_missing_host_counterexample:
  \<open>LoadFileToString demo_engine_no_host (ConfigFilePath demo_engine_no_host)
      = Some ''{"server":{"port":9000}}''
   \<and> Deserialize demo_engine_no_host ''{"server":{"port":9000}}''
      = Some [(''server'', JObject [(''port'', JNumber 9000)])]
   \<and> map_of [(''port'', JNumber (9000::int))] ''host'' = None
   \<and> (Get demo_engine_no_host None :: (UMCPAssetManager \<times> unit event list) option) =
       Some (\<lparr> MCPClient = \<lparr> ServerURL = ''http://:9000'' \<rparr>, bInitialized = True \<rparr>,
         [FileExistsQuery ''Config/mcp_settings.json'', LoadFile ''Config/mcp_settings.json'',
          UE_LOG Log (TEXT_url_set @ ''http://:9000'')])
   \<and> ''http://:9000'' \<noteq> ''http://:0''\<close>
  by (simp add: demo_defs run_defs)

text \<open>C10 (amended) on the concrete engine whose server object is empty.\<close>

theorem C10_server_object_rebuilds_url_witness:
  \<open>(Get demo_engine_empty_server None :: (UMCPAssetManager \<times> unit event list) option) =
       Some (\<lparr> MCPClient = \<lparr> ServerURL = ''http://:0'' \<rparr>, bInitialized = True \<rparr>,
         [FileExistsQuery ''Config/mcp_settings.json'', LoadFile ''Config/mcp_settings.json'',
          UE_LOG Log (TEXT_url_set @ ''http://:0'')])
   \<and> ServerURL (MCPClient \<lparr> MCPClient = \<lparr> ServerURL = ''http://:0'' \<rparr>, bInitialized = True \<rparr>)
       = ''http://:0''\<close>
proof -
  have g: \<open>(Get demo_engine_empty_server None :: (UMCPAssetManager \<times> unit event list) option) =
       Some (\<lparr> MCPClient = \<lparr> ServerURL = ''http://:0'' \<rparr>, bInitialized = True \<rparr>,
         [FileExistsQuery ''Config/mcp_settings.json'', LoadFile ''Config/mcp_settings.json'',
          UE_LOG Log (TEXT_url_set @ ''http://:0'')])\<close>
    by (simp add: demo_defs run_defs)
  have f1: "FileExists demo_engine_empty_server (ConfigFilePath demo_engine_empty_server)"
    by (simp add: demo_defs)
  have f2: \<open>LoadFileToString demo_engine_empty_server (ConfigFilePath demo_engine_empty_server)
              = Some ''{"server":{}}''\<close>
    by (simp add: demo_defs)
  have f3: \<open>Deserialize demo_engine_empty_server ''{"server":{}}'' = Some [(''server'', JObject [])]\<close>
    by (simp add: demo_defs)
  have f4: "map_of [(''server'', JObject [])] ''server'' = Some (JObject ([] :: int FJsonObject))"
    by simp
  have u: "ServerURL (MCPClient \<lparr> MCPClient = \<lparr> ServerURL = ''http://:0'' \<rparr>, bInitialized = True \<rparr>)
       = ''http://:0''
     \<and> ServerURL (MCPClient \<lparr> MCPClient = \<lparr> ServerURL = ''http://:0'' \<rparr>, bInitialized = True \<rparr>)
       \<noteq> ''http://127.0.0.1:8080''"
    by (rule C10_server_object_rebuilds_url [OF g f1 f2 f3 f4,
          THEN conjunct2, THEN conjunct2, THEN conjunct2, THEN mp]) simp
  from g u show ?thesis by blast
qed

text \<open>The exchanges the concrete engine is run on.\<close>

lemma demo_exchange_ok:
  \<open>exchange_ok demo_engine
     (Some \<lparr> GetResponseCode = 200, GetContentAsString = ''{"status":"running"}'' \<rparr>) True\<close>
  \<open>exchange_ok demo_engine
     (Some \<lparr> GetResponseCode = 200, GetContentAsString = ''{"status":"degraded"}'' \<rparr>) True\<close>
  \<open>exchange_ok demo_engine
     (Some \<lparr> GetResponseCode = 200, GetContentAsString = ''{"status":"RUNNING"}'' \<rparr>) True\<close>
  \<open>exchange_ok demo_engine
     (Some \<lparr> GetResponseCode = 200,
             GetContentAsString = ''{"result":{"asset_info":{"name":"PlayerShip"}}}'' \<rparr>) True\<close>
  \<open>exchange_ok demo_engine
     (Some \<lparr> GetResponseCode = 200, GetContentAsString = ''{"server":{}}'' \<rparr>) True\<close>
  "\<not> exchange_ok demo_engine None False"
  by (simp_all add: exchange_ok_def demo_engine_def demo_Deserialize_def)

lemma demo_parsed_body:
  \<open>parsed_body demo_engine
     (Some \<lparr> GetResponseCode = 200, GetContentAsString = ''{"status":"running"}'' \<rparr>) True
   = Some [(''status'', JString ''running'')]\<close>
  \<open>parsed_body demo_engine
     (Some \<lparr> GetResponseCode = 200, GetContentAsString = ''{"status":"degraded"}'' \<rparr>) True
   = Some [(''status'', JString ''degraded'')]\<close>
  \<open>parsed_body demo_engine
     (Some \<lparr> GetResponseCode = 200, GetContentAsString = ''{"status":"RUNNING"}'' \<rparr>) True
   = Some [(''status'', JString ''RUNNING'')]\<close>
  \<open>parsed_body demo_engine
     (Some \<lparr> GetResponseCode = 200,
             GetContentAsString = ''{"result":{"asset_info":{"name":"PlayerShip"}}}'' \<rparr>) True
   = Some [(''result'', JObject [(''asset_info'', JObject [(''name'', JString ''PlayerShip'')])])]\<close>
  \<open>parsed_body demo_engine
     (Some \<lparr> GetResponseCode = 200, GetContentAsString = ''{"server":{}}'' \<rparr>) True
   = Some [(''server'', JObject [])]\<close>
  by (simp_all add: parsed_body_def exchange_ok_def demo_engine_def demo_Deserialize_def)

text \<open>C3 on the concrete engine: a server that is running, one that answers
  "degraded", and one that cannot be reached.\<close>

theorem C3_check_connection_witness:
  \<open>invocations (ProcessRequest (CheckConnection demo_engine (MCPClient demo_manager_ready) record2)
      (Some \<lparr> GetResponseCode = 200, GetContentAsString = ''{"status":"running"}'' \<rparr>) True)
     = [(True, TEXT_connected)]
   \<and> invocations (ProcessRequest (CheckConnection demo_engine (MCPClient demo_manager_ready) record2)
      (Some \<lparr> GetResponseCode = 200, GetContentAsString = ''{"status":"degraded"}'' \<rparr>) True)
     = [(False, TEXT_abnormal @ ''degraded'')]
   \<and> invocations (ProcessRequest (CheckConnection demo_engine (MCPClient demo_manager_ready) record2)
      None False)
     = [(False, TEXT_not_connected)]\<close>
proof -
  have a: \<open>invocations (ProcessRequest (CheckConnection demo_engine (MCPClient demo_manager_ready) record2)
      (Some \<lparr> GetResponseCode = 200, GetContentAsString = ''{"status":"running"}'' \<rparr>) True)
     = [(True, TEXT_connected)]\<close>
    unfolding C3_check_connection [THEN conjunct1]
    by (simp add: demo_exchange_ok demo_parsed_body GetStringField_def ToLower_def)
  have b: \<open>invocations (ProcessRequest (CheckConnection demo_engine (MCPClient demo_manager_ready) record2)
      (Some \<lparr> GetResponseCode = 200, GetContentAsString = ''{"status":"degraded"}'' \<rparr>) True)
     = [(False, TEXT_abnormal @ ''degraded'')]\<close>
    unfolding C3_check_connection [THEN conjunct1]
    by (simp add: demo_exchange_ok demo_parsed_body GetStringField_def ToLower_def)
  have c: \<open>invocations (ProcessRequest (CheckConnection demo_engine (MCPClient demo_manager_ready) record2)
      None False)
     = [(False, TEXT_not_connected)]\<close>
    unfolding C3_check_connection [THEN conjunct1]
    by (simp add: demo_exchange_ok)
  from a b c show ?thesis by blast
qed

text \<open>
  C3 as stated fails: a status field that reads "RUNNING" is a value other than
  "running", and the continuation is given true and the message "connected to the MCP
  server".
\<close>

theorem C3_uppercase_status_counterexample:
  \<open>''RUNNING'' \<noteq> ''running''
   \<and> GetStringField demo_engine [(''status'', JString ''RUNNING'')] ''status'' = ''RUNNING''
   \<and> invocations (ProcessRequest (CheckConnection demo_engine (MCPClient demo_manager_ready) record2)
      (Some \<lparr> GetResponseCode = 200, GetContentAsString = ''{"status":"RUNNING"}'' \<rparr>) True)
     = [(True, TEXT_connected)]\<close>
  by (simp add: CheckConnection_complete record2_def demo_exchange_ok demo_parsed_body
        GetStringField_def FString_eq_running ToLower_def)

text \<open>C9 on the concrete engine: a response with \<open>result.asset_info.name\<close>, a response
  without \<open>result\<close>, and a failed exchange.\<close>

theorem C9_import_asset_name_witness:
  \<open>invocations (ProcessRequest
      (ImportAsset demo_engine (MCPClient demo_manager_ready) ''exports/PlayerShip.fbx''
         ''/Game/BlenderAssets'' record2)
      (Some \<lparr> GetResponseCode = 200,
              GetContentAsString = ''{"result":{"asset_info":{"name":"PlayerShip"}}}'' \<rparr>) True)
     = [(True, ''PlayerShip'')]
   \<and> invocations (ProcessRequest
      (ImportAsset demo_engine (MCPClient demo_manager_ready) ''exports/PlayerShip.fbx''
         ''/Game/BlenderAssets'' record2)
      (Some \<lparr> GetResponseCode = 200, GetContentAsString = ''{"server":{}}'' \<rparr>) True)
     = [(True, [])]
   \<and> invocations (ProcessRequest
      (ImportAsset demo_engine (MCPClient demo_manager_ready) ''exports/PlayerShip.fbx''
         ''/Game/BlenderAssets'' record2) None False)
     = [(False, [])]\<close>
proof -
  have a: \<open>invocations (ProcessRequest
      (ImportAsset demo_engine (MCPClient demo_manager_ready) ''exports/PlayerShip.fbx''
         ''/Game/BlenderAssets'' record2)
      (Some \<lparr> GetResponseCode = 200,
              GetContentAsString = ''{"result":{"asset_info":{"name":"PlayerShip"}}}'' \<rparr>) True)
     = [(True, ''PlayerShip'')]\<close>
    unfolding C9_import_asset_name
    by (simp add: demo_exchange_ok demo_parsed_body result_asset_info_name_def)
  have b: \<open>invocations (ProcessRequest
      (ImportAsset demo_engine (MCPClient demo_manager_ready) ''exports/PlayerShip.fbx''
         ''/Game/BlenderAssets'' record2)
      (Some \<lparr> GetResponseCode = 200, GetContentAsString = ''{"server":{}}'' \<rparr>) True)
     = [(True, [])]\<close>
    unfolding C9_import_asset_name
    by (simp add: demo_exchange_ok demo_parsed_body result_asset_info_name_def)
  have c: \<open>invocations (ProcessRequest
      (ImportAsset demo_engine (MCPClient demo_manager_ready) ''exports/PlayerShip.fbx''
         ''/Game/BlenderAssets'' record2) None False)
     = [(False, [])]\<close>
    unfolding C9_import_asset_name
    by (simp add: demo_exchange_ok)
  from a b c show ?thesis by blast
qed

text \<open>C2 on the concrete engine, whose path operator joins with a slash: the import of
  \<open>exports/PlayerShip.fbx\<close> into \<open>/Game/BlenderAssets\<close>, answered and refused.\<close>

theorem C2_import_blender_model_witness:
  \<open>invocations (ProcessRequest
      (ImportBlenderModel demo_engine demo_manager_ready ''exports/PlayerShip.fbx''
         ''/Game/BlenderAssets'' record1)
      (Some \<lparr> GetResponseCode = 200,
              GetContentAsString = ''{"result":{"asset_info":{"name":"PlayerShip"}}}'' \<rparr>) True)
     = [\<lparr> bSuccess = True, AssetPath = ''/Game/BlenderAssets/PlayerShip'',
          AssetName = ''PlayerShip'', ErrorMessage = [] \<rparr>]
   \<and> invocations (ProcessRequest
      (ImportBlenderModel demo_engine demo_manager_ready ''exports/PlayerShip.fbx''
         ''/Game/BlenderAssets'' record1) None False)
     = [\<lparr> bSuccess = False, AssetPath = [], AssetName = [],
          ErrorMessage = TEXT_import_failed @ ''exports/PlayerShip.fbx'' \<rparr>]\<close>
proof -
  have n: \<open>decoded_name demo_engine
      [(''result'', JObject [(''asset_info'', JObject [(''name'', JString ''PlayerShip'')])])]
      = ''PlayerShip''\<close>
    by (simp add: decoded_name_def result_asset_info_name_def)
  have j: "PathAppend demo_engine ''/Game/BlenderAssets'' ''PlayerShip''
      = ''/Game/BlenderAssets/PlayerShip''"
    by (simp add: demo_engine_def)
  have a: \<open>invocations (ProcessRequest
      (ImportBlenderModel demo_engine demo_manager_ready ''exports/PlayerShip.fbx''
         ''/Game/BlenderAssets'' record1)
      (Some \<lparr> GetResponseCode = 200,
              GetContentAsString = ''{"result":{"asset_info":{"name":"PlayerShip"}}}'' \<rparr>) True)
     = [\<lparr> bSuccess = True, AssetPath = ''/Game/BlenderAssets/PlayerShip'',
          AssetName = ''PlayerShip'', ErrorMessage = [] \<rparr>]\<close>
    unfolding C2_import_blender_model [THEN conjunct1]
    by (simp add: demo_exchange_ok demo_parsed_body n j)
  have b: \<open>invocations (ProcessRequest
      (ImportBlenderModel demo_engine demo_manager_ready ''exports/PlayerShip.fbx''
         ''/Game/BlenderAssets'' record1) None False)
     = [\<lparr> bSuccess = False, AssetPath = [], AssetName = [],
          ErrorMessage = TEXT_import_failed @ ''exports/PlayerShip.fbx'' \<rparr>]\<close>
    unfolding C2_import_blender_model [THEN conjunct1]
    by (simp add: demo_exchange_ok)
  from a b show ?thesis by blast
qed

section \<open>Properties of the placement\<close>

text \<open>
  C7. A call of \<open>PlaceAssetInLevel\<close> off the game thread returns true at once, its only
  effect is to post to the game thread a task that calls \<open>PlaceAssetInLevel\<close> with the same
  arguments, and it changes nothing in the world on the calling thread.
\<close>

theorem C7_place_off_game_thread:
  "PlaceAssetInLevel True Ed False p l r s n = (True, [AsyncTask GameThread p l r s n])
   \<and> RunTask True Ed (AsyncTask GameThread p l r s n)
       = snd (PlaceAssetInLevel True Ed True p l r s n)
   \<and> \<not> list_ex mutates_world (snd (PlaceAssetInLevel True Ed False p l r s n))"
  by (simp add: PlaceAssetInLevel_def)

text \<open>C7 on the concrete editor: the call off the game thread posts the task, and the
  task, run on the game thread, spawns the mesh actor.\<close>

theorem C7_place_off_game_thread_witness:
  "PlaceAssetInLevel True demo_editor False ''/Game/X'' (0, 0, 0) (0, 0, 0) (1, 1, 1) []
     = (True, [AsyncTask GameThread ''/Game/X'' (0, 0, 0) (0, 0, 0) (1, 1, 1) []])
   \<and> RunTask True demo_editor
         (AsyncTask GameThread ''/Game/X'' (0, 0, 0) (0, 0, 0) (1, 1, 1) [])
     = [SpawnActorCall ''AStaticMeshActor'' (0, 0, 0) (0, 0, 0) (Some 1),
        SetStaticMesh 1 ''X'',
        SetActorScale3D 1 (1, 1, 1),
        W_LOG Log (TEXT_asset_placed_1 @ ''/Game/X'' @ TEXT_placed_2)]"
proof -
  have a: "PlaceAssetInLevel True demo_editor False ''/Game/X'' (0, 0, 0) (0, 0, 0) (1, 1, 1) []
     = (True, [AsyncTask GameThread ''/Game/X'' (0, 0, 0) (0, 0, 0) (1, 1, 1) []])"
    by (rule C7_place_off_game_thread [THEN conjunct1])
  have b: "RunTask True demo_editor
         (AsyncTask GameThread ''/Game/X'' (0, 0, 0) (0, 0, 0) (1, 1, 1) [])
     = [SpawnActorCall ''AStaticMeshActor'' (0, 0, 0) (0, 0, 0) (Some 1),
        SetStaticMesh 1 ''X'',
        SetActorScale3D 1 (1, 1, 1),
        W_LOG Log (TEXT_asset_placed_1 @ ''/Game/X'' @ TEXT_placed_2)]"
    unfolding C7_place_off_game_thread [THEN conjunct2, THEN conjunct1]
    by (simp add: PlaceAssetInLevel_def demo_editor_def)
  from a b show ?thesis by blast
qed

end
